theory Spec2Isabelle
  imports Complex_Main "HOL-Library.Log_Nat"
begin

unbundle bit_operations_syntax

section \<open>Python floats: binary64 values with round-to-nearest-even\<close>

text \<open>
  A finite Python \<^verbatim>\<open>float\<close> is a rational number. Every arithmetic operation of the
  source returns the exact result rounded to the nearest binary64 value, ties to the even
  mantissa. \<open>binade x\<close> is the exponent \<open>e\<close> with \<open>2^e \<le> |x| < 2^(e+1)\<close>; the spacing
  of the binary64 values around \<open>x\<close> is \<open>2^(e - 52)\<close>, and \<open>2^(-1074)\<close> in the subnormal
  range. NaN and the infinities are not values of this model; no operation of the
  program overflows on finite inputs.
\<close>

type_synonym pyfloat = rat

definition binade :: "rat \<Rightarrow> int" where
  "binade x = (let (p, q) = quotient_of \<bar>x\<bar>;
                   d = bitlen p - bitlen q
               in if 2 powi d \<le> \<bar>x\<bar> then d else d - 1)"

definition round_half_even :: "rat \<Rightarrow> int" where
  "round_half_even y =
     (let n = \<lfloor>y\<rfloor>; r = y - of_int n
      in if r < 1 / 2 then n
         else if 1 / 2 < r then n + 1
         else if even n then n else n + 1)"

definition fl64 :: "rat \<Rightarrow> pyfloat" where
  "fl64 x = (if x = 0 then 0
             else let s = 2 powi (max (binade x) (- 1022) - 52)
                  in of_int (round_half_even (x / s)) * s)"

definition fadd :: "pyfloat \<Rightarrow> pyfloat \<Rightarrow> pyfloat" where
  "fadd a b = fl64 (a + b)"

definition fsub :: "pyfloat \<Rightarrow> pyfloat \<Rightarrow> pyfloat" where
  "fsub a b = fl64 (a - b)"

definition fmul :: "pyfloat \<Rightarrow> pyfloat \<Rightarrow> pyfloat" where
  "fmul a b = fl64 (a * b)"

definition fdiv :: "pyfloat \<Rightarrow> pyfloat \<Rightarrow> pyfloat" where
  "fdiv a b = fl64 (a / b)"

text \<open>
  Python's \<^verbatim>\<open>x % y\<close> on floats: the C \<^verbatim>\<open>fmod\<close> (exact, with the sign of \<open>x\<close>), then
  \<open>y\<close> is added, with rounding, when the signs of the remainder and of \<open>y\<close> differ.
\<close>

definition fmod :: "pyfloat \<Rightarrow> pyfloat \<Rightarrow> pyfloat" where
  "fmod x y = (let q = x / y
               in x - y * of_int (if 0 \<le> q then \<lfloor>q\<rfloor> else \<lceil>q\<rceil>))"

definition float_rem :: "pyfloat \<Rightarrow> pyfloat \<Rightarrow> pyfloat" where
  "float_rem x y =
     (let m = fmod x y
      in if m \<noteq> 0 then (if (y < 0) \<noteq> (m < 0) then fadd m y else m) else 0)"

section \<open>sonnet\_geo.py\<close>

subsection \<open>Constants, exceptions and the decoded cell\<close>

definition BASE32_ALPHABET :: string where
  "BASE32_ALPHABET = ''0123456789bcdefghjkmnpqrstuvwxyz''"

definition BASE32_DECODE_MAP :: "char \<rightharpoonup> nat" where
  "BASE32_DECODE_MAP =
     fold (\<lambda>(index, c) m. m(c \<mapsto> index)) (enumerate 0 BASE32_ALPHABET) Map.empty"

definition BITS_PER_CHAR :: nat where
  "BITS_PER_CHAR = 5"

definition LON_RANGE :: "pyfloat \<times> pyfloat" where
  "LON_RANGE = (- 180, 180)"

definition LAT_RANGE :: "pyfloat \<times> pyfloat" where
  "LAT_RANGE = (- 90, 90)"

definition LON_SPAN :: pyfloat where
  "LON_SPAN = 360"

text \<open>
  The exceptions of the three files. \<open>InvalidCoordinateError\<close> carries the axis and the
  offending value, \<open>InvalidPrecisionError\<close> the offending precision,
  \<open>InvalidGeohashError\<close> and \<open>ValueError\<close> the message text.
\<close>

datatype error =
    InvalidGeohashError string
  | InvalidCoordinateError string pyfloat
  | InvalidPrecisionError int
  | ValueError string
  | IndexError

record DecodedCell =
  lon :: pyfloat
  lat :: pyfloat
  lon_err :: pyfloat
  lat_err :: pyfloat
  geohash :: string

subsection \<open>Helper functions\<close>

text \<open>The loop of \<^verbatim>\<open>_bits_to_geohash\<close>, with its state
  \<open>(geohash_chars, accumulator, count)\<close>.\<close>

fun pack_bits :: "nat list \<Rightarrow> string \<Rightarrow> nat \<Rightarrow> nat \<Rightarrow> error + string" where
  "pack_bits [] geohash_chars accumulator count = Inr geohash_chars"
| "pack_bits (b # bits) geohash_chars accumulator count =
     (let accumulator = (push_bit 1 accumulator) OR b;
          count = count + 1
      in if count = BITS_PER_CHAR
         then (if accumulator < length BASE32_ALPHABET
               then pack_bits bits (geohash_chars @ [BASE32_ALPHABET ! accumulator]) 0 0
               else Inl IndexError)
         else pack_bits bits geohash_chars accumulator count)"

definition bits_to_geohash :: "nat list \<Rightarrow> error + string" where
  "bits_to_geohash bits =
     (if length bits mod BITS_PER_CHAR \<noteq> 0
      then Inl (ValueError ''Bit sequence length must be a multiple of 5'')
      else pack_bits bits [] 0 0)"

definition invalid_character_message :: "char \<Rightarrow> string" where
  "invalid_character_message c =
     ''Invalid geohash character '' @ [CHR 0x27, c, CHR 0x27] @ ''. Valid characters: ''
       @ BASE32_ALPHABET"

definition char_bits :: "nat \<Rightarrow> nat list" where
  "char_bits v = map (\<lambda>shift. (drop_bit shift v) AND 1) [4, 3, 2, 1, 0]"

fun unpack_chars :: "string \<Rightarrow> nat list \<Rightarrow> error + nat list" where
  "unpack_chars [] bits = Inr bits"
| "unpack_chars (c # cs) bits =
     (case BASE32_DECODE_MAP c of
        None \<Rightarrow> Inl (InvalidGeohashError (invalid_character_message c))
      | Some v \<Rightarrow> unpack_chars cs (bits @ char_bits v))"

definition geohash_to_bits :: "string \<Rightarrow> error + nat list" where
  "geohash_to_bits h = unpack_chars h []"

definition midpoint :: "pyfloat \<Rightarrow> pyfloat \<Rightarrow> pyfloat" where
  "midpoint low high = fdiv (fadd low high) 2"

fun refine_interval :: "nat list \<Rightarrow> pyfloat \<times> pyfloat \<Rightarrow> pyfloat \<times> pyfloat" where
  "refine_interval [] (low, high) = (low, high)"
| "refine_interval (b # bits) (low, high) =
     (let mid = midpoint low high
      in if b \<noteq> 0 then refine_interval bits (mid, high)
         else refine_interval bits (low, mid))"

definition total_bits :: "int \<Rightarrow> error + nat" where
  "total_bits precision =
     (if precision \<le> 0 then Inl (InvalidPrecisionError precision)
      else Inr (nat precision * BITS_PER_CHAR))"

definition wrap_longitude :: "pyfloat \<Rightarrow> pyfloat" where
  "wrap_longitude x =
     (let wrapped = fadd (float_rem (fsub x (fst LON_RANGE)) LON_SPAN) (fst LON_RANGE)
      in if wrapped = snd LON_RANGE then fst LON_RANGE else wrapped)"

definition clamp_latitude :: "pyfloat \<Rightarrow> pyfloat" where
  "clamp_latitude y = max (fst LAT_RANGE) (min y (snd LAT_RANGE))"

text \<open>The slices \<^verbatim>\<open>bits[::2]\<close> and \<^verbatim>\<open>bits[1::2]\<close>.\<close>

fun even_slice :: "'a list \<Rightarrow> 'a list" where
  "even_slice [] = []"
| "even_slice [x] = [x]"
| "even_slice (x # y # xs) = x # even_slice xs"

definition odd_slice :: "'a list \<Rightarrow> 'a list" where
  "odd_slice xs = even_slice (drop 1 xs)"

subsection \<open>The decoded cell and its views\<close>

definition from_geohash :: "string \<Rightarrow> error + DecodedCell" where
  "from_geohash h =
     (case geohash_to_bits h of
        Inl e \<Rightarrow> Inl e
      | Inr bits \<Rightarrow>
          (let lon_bits = even_slice bits;
               lat_bits = odd_slice bits;
               (lon_min, lon_max) = refine_interval lon_bits LON_RANGE;
               (lat_min, lat_max) = refine_interval lat_bits LAT_RANGE
           in Inr \<lparr> lon = fdiv (fadd lon_min lon_max) 2,
                    lat = fdiv (fadd lat_min lat_max) 2,
                    lon_err = fdiv (fsub lon_max lon_min) 2,
                    lat_err = fdiv (fsub lat_max lat_min) 2,
                    geohash = h \<rparr>))"

definition to_point :: "DecodedCell \<Rightarrow> pyfloat \<times> pyfloat" where
  "to_point cell = (lon cell, lat cell)"

definition to_pointerr :: "DecodedCell \<Rightarrow> pyfloat \<times> pyfloat \<times> pyfloat \<times> pyfloat" where
  "to_pointerr cell = (lon cell, lat cell, lon_err cell, lat_err cell)"

definition to_bbox :: "DecodedCell \<Rightarrow> pyfloat \<times> pyfloat \<times> pyfloat \<times> pyfloat" where
  "to_bbox cell =
     (fsub (lon cell) (lon_err cell), fsub (lat cell) (lat_err cell),
      fadd (lon cell) (lon_err cell), fadd (lat cell) (lat_err cell))"

definition to_polygon :: "DecodedCell \<Rightarrow> bool \<Rightarrow> (pyfloat \<times> pyfloat) list" where
  "to_polygon cell is_closed =
     (let west = fsub (lon cell) (lon_err cell);
          east = fadd (lon cell) (lon_err cell);
          south = fsub (lat cell) (lat_err cell);
          north = fadd (lat cell) (lat_err cell);
          corners = [(west, south), (east, south), (east, north), (west, north)]
      in if is_closed then corners @ [(west, south)] else corners)"

subsection \<open>Public API\<close>

text \<open>The loop of \<^verbatim>\<open>encode\<close>: \<open>n\<close> iterations remain; the state is the two intervals,
  the bits emitted so far and \<open>use_lon\<close>.\<close>

fun encode_loop ::
  "nat \<Rightarrow> pyfloat \<Rightarrow> pyfloat \<Rightarrow> pyfloat \<times> pyfloat \<Rightarrow> pyfloat \<times> pyfloat \<Rightarrow> nat list \<Rightarrow> bool
     \<Rightarrow> nat list" where
  "encode_loop 0 x y lon_interval lat_interval bits use_lon = bits"
| "encode_loop (Suc n) x y lon_interval lat_interval bits use_lon =
     (let interval = (if use_lon then lon_interval else lat_interval);
          v = (if use_lon then x else y);
          mid = midpoint (fst interval) (snd interval)
      in if v \<ge> mid
         then encode_loop n x y
                (if use_lon then (mid, snd lon_interval) else lon_interval)
                (if use_lon then lat_interval else (mid, snd lat_interval))
                (bits @ [1]) (\<not> use_lon)
         else encode_loop n x y
                (if use_lon then (fst lon_interval, mid) else lon_interval)
                (if use_lon then lat_interval else (fst lat_interval, mid))
                (bits @ [0]) (\<not> use_lon))"

definition encode :: "pyfloat \<Rightarrow> pyfloat \<Rightarrow> int \<Rightarrow> error + string" where
  "encode x y precision =
     (if \<not> (fst LAT_RANGE \<le> y \<and> y \<le> snd LAT_RANGE)
      then Inl (InvalidCoordinateError ''Latitude'' y)
      else if \<not> (fst LON_RANGE \<le> x \<and> x \<le> snd LON_RANGE)
      then Inl (InvalidCoordinateError ''Longitude'' x)
      else case total_bits precision of
             Inl e \<Rightarrow> Inl e
           | Inr n \<Rightarrow> bits_to_geohash (encode_loop n x y LON_RANGE LAT_RANGE [] True))"

definition decode :: "string \<Rightarrow> error + DecodedCell" where
  "decode h = from_geohash h"

text \<open>The results of a sequence of calls; the first exception ends the sequence.\<close>

fun collect :: "(error + 'a) list \<Rightarrow> error + 'a list" where
  "collect [] = Inr []"
| "collect (Inl e # rs) = Inl e"
| "collect (Inr v # rs) = (case collect rs of Inl e \<Rightarrow> Inl e | Inr vs \<Rightarrow> Inr (v # vs))"

definition neighbors :: "string \<Rightarrow> error + string list" where
  "neighbors h =
     (case decode h of
        Inl e \<Rightarrow> Inl e
      | Inr cell \<Rightarrow>
          (let lon_step = fmul (lon_err cell) 2;
               lat_step = fmul (lat_err cell) 2;
               precision = int (length h)
           in collect
                (concat
                   (map (\<lambda>lat_delta.
                           let candidate_lat =
                                 clamp_latitude (fadd (lat cell) (fmul lat_delta lat_step))
                           in map (\<lambda>lon_delta.
                                     let candidate_lon =
                                           wrap_longitude
                                             (fadd (lon cell) (fmul lon_delta lon_step))
                                     in encode candidate_lon candidate_lat precision)
                                  [- 1, 0, 1])
                        [1, 0, - 1]))))"

definition parent :: "string \<Rightarrow> string" where
  "parent h = (if length h > 1 then butlast h else h)"

definition bbox :: "string \<Rightarrow> error + pyfloat \<times> pyfloat \<times> pyfloat \<times> pyfloat" where
  "bbox h = (case decode h of Inl e \<Rightarrow> Inl e | Inr cell \<Rightarrow> Inr (to_bbox cell))"

section \<open>codex\_geo.py\<close>

text \<open>
  \<^verbatim>\<open>_bits_to_geohash\<close> and \<^verbatim>\<open>_refine_interval\<close> of this file are the functions of
  the same names above (the latter updates its interval argument in place, which is the
  pair returned here). The other functions differ and are modelled on their own.
\<close>

definition codex_geohash_to_bits_message :: string where
  "codex_geohash_to_bits_message =
     ''Invalid geohash character. Use 0-9 and b-h, j, k, m, n, p-z.''"

fun codex_unpack_chars :: "string \<Rightarrow> nat list \<Rightarrow> error + nat list" where
  "codex_unpack_chars [] bits = Inr bits"
| "codex_unpack_chars (c # cs) bits =
     (case BASE32_DECODE_MAP c of
        None \<Rightarrow> Inl (ValueError codex_geohash_to_bits_message)
      | Some v \<Rightarrow> codex_unpack_chars cs (bits @ char_bits v))"

definition codex_geohash_to_bits :: "string \<Rightarrow> error + nat list" where
  "codex_geohash_to_bits h = codex_unpack_chars h []"

definition codex_total_bits :: "int \<Rightarrow> error + nat" where
  "codex_total_bits precision =
     (if precision \<le> 0 then Inl (ValueError ''Precision must be a positive integer'')
      else Inr (nat precision * BITS_PER_CHAR))"

definition codex_wrap_longitude :: "pyfloat \<Rightarrow> pyfloat" where
  "codex_wrap_longitude x =
     (let wrapped = fsub (float_rem (fadd x 180) 360) 180
      in if wrapped = 180 then - 180 else wrapped)"

definition codex_encode :: "pyfloat \<Rightarrow> pyfloat \<Rightarrow> int \<Rightarrow> error + string" where
  "codex_encode x y precision =
     (case codex_total_bits precision of
        Inl e \<Rightarrow> Inl e
      | Inr n \<Rightarrow> bits_to_geohash (encode_loop n x y (- 180, 180) (- 90, 90) [] True))"

record codex_DecodedCell =
  c_lon :: pyfloat
  c_lat :: pyfloat
  c_lon_err :: pyfloat
  c_lat_err :: pyfloat

definition codex_to_point :: "codex_DecodedCell \<Rightarrow> pyfloat \<times> pyfloat" where
  "codex_to_point cell = (c_lon cell, c_lat cell)"

definition codex_to_pointerr ::
  "codex_DecodedCell \<Rightarrow> pyfloat \<times> pyfloat \<times> pyfloat \<times> pyfloat" where
  "codex_to_pointerr cell = (c_lon cell, c_lat cell, c_lon_err cell, c_lat_err cell)"

definition codex_to_polygon :: "codex_DecodedCell \<Rightarrow> (pyfloat \<times> pyfloat) list" where
  "codex_to_polygon cell =
     (let west = fsub (c_lon cell) (c_lon_err cell);
          east = fadd (c_lon cell) (c_lon_err cell);
          south = fsub (c_lat cell) (c_lat_err cell);
          north = fadd (c_lat cell) (c_lat_err cell)
      in [(west, south), (east, south), (west, north), (east, north)])"

text \<open>What \<^verbatim>\<open>decode\<close> returns, by \<^verbatim>\<open>geotype\<close>.\<close>

datatype decoded =
    Point "pyfloat \<times> pyfloat"
  | PointErr "pyfloat \<times> pyfloat \<times> pyfloat \<times> pyfloat"
  | Polygon "(pyfloat \<times> pyfloat) list"

definition codex_decode_cell :: "string \<Rightarrow> error + codex_DecodedCell" where
  "codex_decode_cell h =
     (case codex_geohash_to_bits h of
        Inl e \<Rightarrow> Inl e
      | Inr bits \<Rightarrow>
          (let lon_bits = even_slice bits;
               lat_bits = odd_slice bits;
               lon_interval = refine_interval lon_bits (- 180, 180);
               lat_interval = refine_interval lat_bits (- 90, 90)
           in Inr \<lparr> c_lon = fdiv (fadd (fadd 0 (fst lon_interval)) (snd lon_interval)) 2,
                    c_lat = fdiv (fadd (fadd 0 (fst lat_interval)) (snd lat_interval)) 2,
                    c_lon_err = fdiv (fsub (snd lon_interval) (fst lon_interval)) 2,
                    c_lat_err = fdiv (fsub (snd lat_interval) (fst lat_interval)) 2 \<rparr>))"

definition codex_decode :: "string \<Rightarrow> string \<Rightarrow> error + decoded" where
  "codex_decode h geotype =
     (case codex_decode_cell h of
        Inl e \<Rightarrow> Inl e
      | Inr cell \<Rightarrow>
          if geotype = ''point'' then Inr (Point (codex_to_point cell))
          else if geotype = ''pointerr'' then Inr (PointErr (codex_to_pointerr cell))
          else if geotype = ''polygon'' then Inr (Polygon (codex_to_polygon cell))
          else Inl (ValueError ''geotype must be 'point', 'pointerr', or 'polygon' ''))"

definition codex_neighbors :: "string \<Rightarrow> error + string list" where
  "codex_neighbors h =
     (case codex_decode h ''pointerr'' of
        Inl e \<Rightarrow> Inl e
      | Inr (PointErr (x, y, x_err, y_err)) \<Rightarrow>
          (let lon_step = fmul x_err 2;
               lat_step = fmul y_err 2;
               precision = int (length h)
           in collect
                (concat
                   (map (\<lambda>lon_delta.
                           let candidate_lon =
                                 codex_wrap_longitude (fadd x (fmul lon_delta lon_step))
                           in map (\<lambda>lat_delta.
                                     let candidate_lat =
                                           max (min (fadd y (fmul lat_delta lat_step)) 90) (- 90)
                                     in codex_encode candidate_lon candidate_lat precision)
                                  [1, 0, - 1])
                        [- 1, 0, 1])))
      | Inr _ \<Rightarrow> Inl (ValueError ''unpack''))"

section \<open>geohash.py\<close>

text \<open>The list \<^verbatim>\<open>base32\<close> of one-character strings, written as the string of its
  characters.\<close>

definition base32 :: "char list" where
  "base32 = ''0123456789bcdefghjkmnpqrstuvwxyz''"

definition dict32 :: "char \<rightharpoonup> nat" where
  "dict32 = [CHR ''0'' \<mapsto> 0, CHR ''1'' \<mapsto> 1, CHR ''2'' \<mapsto> 2, CHR ''3'' \<mapsto> 3, CHR ''4'' \<mapsto> 4,
             CHR ''5'' \<mapsto> 5, CHR ''6'' \<mapsto> 6, CHR ''7'' \<mapsto> 7, CHR ''8'' \<mapsto> 8, CHR ''9'' \<mapsto> 9,
             CHR ''b'' \<mapsto> 10, CHR ''c'' \<mapsto> 11, CHR ''d'' \<mapsto> 12, CHR ''e'' \<mapsto> 13,
             CHR ''f'' \<mapsto> 14, CHR ''g'' \<mapsto> 15, CHR ''h'' \<mapsto> 16, CHR ''j'' \<mapsto> 17,
             CHR ''k'' \<mapsto> 18, CHR ''m'' \<mapsto> 19, CHR ''n'' \<mapsto> 20, CHR ''p'' \<mapsto> 21,
             CHR ''q'' \<mapsto> 22, CHR ''r'' \<mapsto> 23, CHR ''s'' \<mapsto> 24, CHR ''t'' \<mapsto> 25,
             CHR ''u'' \<mapsto> 26, CHR ''v'' \<mapsto> 27, CHR ''w'' \<mapsto> 28, CHR ''x'' \<mapsto> 29,
             CHR ''y'' \<mapsto> 30, CHR ''z'' \<mapsto> 31]"

text \<open>The loop of \<^verbatim>\<open>get_bits\<close>: \<open>n\<close> iterations remain, the state is \<open>(result, tup_range)\<close>.
  The comparison with the midpoint is strict.\<close>

fun get_bits_loop :: "nat \<Rightarrow> pyfloat \<Rightarrow> string \<Rightarrow> pyfloat \<times> pyfloat \<Rightarrow> string" where
  "get_bits_loop 0 degrees result tup_range = result"
| "get_bits_loop (Suc n) degrees result tup_range =
     (let mid = fdiv (fadd (fadd 0 (fst tup_range)) (snd tup_range)) 2
      in if degrees > mid
         then get_bits_loop n degrees (result @ ''1'') (mid, snd tup_range)
         else get_bits_loop n degrees (result @ ''0'') (fst tup_range, mid))"

definition get_bits :: "pyfloat \<Rightarrow> int \<Rightarrow> int \<Rightarrow> string" where
  "get_bits degrees precision range_ends =
     get_bits_loop (nat ((precision * 5) div 2 + (precision * 5) mod 2)) degrees []
       (- of_int range_ends, of_int range_ends)"

text \<open>\<^verbatim>\<open>''.join(''.join(x) for x in zip_longest(a, b, fillvalue=''))\<close>.\<close>

fun zip_longest_join :: "string \<Rightarrow> string \<Rightarrow> string" where
  "zip_longest_join [] ys = ys"
| "zip_longest_join xs [] = xs"
| "zip_longest_join (x # xs) (y # ys) = x # y # zip_longest_join xs ys"

text \<open>\<^verbatim>\<open>int(s, 2)\<close> on the strings this program builds: digits \<open>0\<close> and \<open>1\<close>; the empty
  string and any other character raise \<^verbatim>\<open>ValueError\<close>.\<close>

fun binary_digits :: "string \<Rightarrow> nat \<Rightarrow> nat option" where
  "binary_digits [] acc = Some acc"
| "binary_digits (c # cs) acc =
     (if c = CHR ''0'' then binary_digits cs (2 * acc)
      else if c = CHR ''1'' then binary_digits cs (2 * acc + 1)
      else None)"

definition int_base2 :: "string \<Rightarrow> error + nat" where
  "int_base2 s =
     (if s = [] then Inl (ValueError ''invalid literal for int() with base 2'')
      else case binary_digits s 0 of
             None \<Rightarrow> Inl (ValueError ''invalid literal for int() with base 2'')
           | Some v \<Rightarrow> Inr v)"

fun geohash_chars_loop :: "nat list \<Rightarrow> string \<Rightarrow> string \<Rightarrow> error + string" where
  "geohash_chars_loop [] geobits gh = Inr gh"
| "geohash_chars_loop (i # is) geobits gh =
     (case int_base2 (take 5 (drop (i * 5) geobits)) of
        Inl e \<Rightarrow> Inl e
      | Inr v \<Rightarrow> if v < length base32 then geohash_chars_loop is geobits (gh @ [base32 ! v])
                 else Inl IndexError)"

definition geohash_encode :: "pyfloat \<Rightarrow> pyfloat \<Rightarrow> int \<Rightarrow> error + string" where
  "geohash_encode x y precision =
     (let lon_bits = get_bits x precision 180;
          lat_bits = get_bits y precision 90;
          geobits = zip_longest_join lon_bits lat_bits
      in geohash_chars_loop [0 ..< nat precision] geobits [])"

definition get_geobits_message :: string where
  "get_geobits_message = ''Invalid geohash character.  Use 0-9, b-h, j, k, m, n, p-z.''"

text \<open>\<^verbatim>\<open>bin(n)[2:].zfill(5)\<close> for the values of \<open>dict32\<close>.\<close>

fun bin_digits :: "nat \<Rightarrow> nat \<Rightarrow> string" where
  "bin_digits 0 n = []"
| "bin_digits (Suc fuel) n =
     (if n < 2 then [if n = 0 then CHR ''0'' else CHR ''1'']
      else bin_digits fuel (n div 2) @ [if even n then CHR ''0'' else CHR ''1''])"

definition bin_py :: "nat \<Rightarrow> string" where
  "bin_py n = bin_digits (Suc n) n"

definition zfill :: "nat \<Rightarrow> string \<Rightarrow> string" where
  "zfill width s = replicate (width - length s) CHR ''0'' @ s"

fun get_geobits_loop :: "string \<Rightarrow> string \<Rightarrow> string" where
  "get_geobits_loop [] geobits = geobits"
| "get_geobits_loop (i # rest) geobits =
     (case dict32 i of
        None \<Rightarrow> get_geobits_message
      | Some v \<Rightarrow> get_geobits_loop rest (geobits @ zfill 5 (bin_py v)))"

definition get_geobits :: "string \<Rightarrow> string" where
  "get_geobits h = get_geobits_loop h []"

fun get_degrees_loop :: "string \<Rightarrow> pyfloat \<times> pyfloat \<Rightarrow> pyfloat \<times> pyfloat" where
  "get_degrees_loop [] tup_range = tup_range"
| "get_degrees_loop (i # bits) tup_range =
     (let mid = fdiv (fadd (fadd 0 (fst tup_range)) (snd tup_range)) 2
      in if i = CHR ''0'' then get_degrees_loop bits (fst tup_range, mid)
         else get_degrees_loop bits (mid, snd tup_range))"

definition get_degrees :: "string \<Rightarrow> int \<Rightarrow> pyfloat \<times> pyfloat" where
  "get_degrees bits range_ends =
     (let tup_range = get_degrees_loop bits (- of_int range_ends, of_int range_ends);
          degrees = fdiv (fadd (fadd 0 (fst tup_range)) (snd tup_range)) 2;
          precision = \<bar>fsub degrees (fst tup_range)\<bar>
      in (degrees, precision))"

text \<open>What \<^verbatim>\<open>decode\<close> of geohash.py returns: a list of four numbers for \<^verbatim>\<open>'pointerr'\<close>,
  a list of four corners for \<^verbatim>\<open>'polygon'\<close>, a pair otherwise.\<close>

datatype response =
    RList "pyfloat list"
  | RCorners "(pyfloat \<times> pyfloat) list"
  | RPair "pyfloat \<times> pyfloat"

definition geohash_decode :: "string \<Rightarrow> string \<Rightarrow> response" where
  "geohash_decode h geotype =
     (let geobits = get_geobits h;
          lon_bits = even_slice geobits;
          lat_bits = odd_slice geobits;
          (x, x_err) = get_degrees lon_bits 180;
          (y, y_err) = get_degrees lat_bits 90
      in if geotype = ''pointerr'' then RList [y, x, y_err, x_err]
         else if geotype = ''polygon''
         then RCorners [(fsub x x_err, fsub y y_err), (fadd x x_err, fsub y y_err),
                        (fsub x x_err, fadd y y_err), (fadd x x_err, fadd y y_err)]
         else RPair (x, y))"

section \<open>Decoding the empty geohash\<close>

text \<open>
  Claim C10. Decoding the empty string raises no error and gives the whole-world cell:
  centre longitude 0, centre latitude 0, longitude error 180, latitude error 90. This
  holds for \<^verbatim>\<open>decode\<close> of sonnet\_geo.py, of codex\_geo.py and of geohash.py (whose
  \<^verbatim>\<open>'pointerr'\<close> answer lists the latitude first).
\<close>

theorem decode_empty_string:
  "decode '''' = Inr \<lparr> lon = 0, lat = 0, lon_err = 180, lat_err = 90, geohash = '''' \<rparr>
   \<and> codex_decode '''' ''pointerr'' = Inr (PointErr (0, 0, 180, 90))
   \<and> codex_decode '''' ''point'' = Inr (Point (0, 0))
   \<and> geohash_decode '''' ''pointerr'' = RList [0, 0, 90, 180]
   \<and> geohash_decode '''' ''point'' = RPair (0, 0)"
  by code_simp

end
